theory Spec2Isabelle
  imports Main
begin

section \<open>Data model of the scoreboard\<close>

text \<open>
  The game screen (\<^verbatim>\<open>src/app/game-screen.js\<close>) keeps a grid of cells, one row per
  target number and one column per player, and a history of moves. A cell is the object
  \<^verbatim>\<open>{ taps: n }\<close>. An array slot that holds no cell (\<^verbatim>\<open>undefined\<close>, or \<^verbatim>\<open>null\<close>
  after a round trip through JSON) is \<open>None\<close>; reading \<^verbatim>\<open>.taps\<close> of such a slot
  raises a TypeError in the source.
\<close>

record cell =
  taps :: int

record move =
  rowIndex :: nat
  colIndex :: nat
  previousTaps :: int

datatype error = TypeError | SyntaxError

text \<open>
  A record of the persisted collections. The in-progress records are written as
  \<^verbatim>\<open>{gameName, players, grid, history, date}\<close>, the completed ones as
  \<^verbatim>\<open>{gameName, players, grid, winner, date, time}\<close>; a key that the object does not
  have is \<open>None\<close>.
\<close>

record game =
  gameName :: string
  players :: "string list"
  grid :: "cell option list list"
  history :: "move list option"
  date :: string
  time :: "string option"
  winner :: "string option"

text \<open>
  AsyncStorage holds the two collections under the keys \<^verbatim>\<open>inProgressGames\<close> and
  \<^verbatim>\<open>completedGames\<close>; \<open>None\<close> is a key that was never written
  (\<^verbatim>\<open>getItem\<close> returns \<^verbatim>\<open>null\<close>).
\<close>

record storage =
  inProgressGames :: "game list option"
  completedGames :: "game list option"

text \<open>
  The readings of \<^verbatim>\<open>new Date().toLocaleDateString()\<close> and
  \<^verbatim>\<open>new Date().toLocaleTimeString()\<close> at the moment a handler runs.
\<close>

record clock =
  localeDate :: string
  localeTime :: string

text \<open>
  The state of one mounted game screen: the route parameters \<open>gameName\<close> and
  \<open>players\<close>, the React state variables, the storage the screen reads and writes, and
  the parameters \<^verbatim>\<open>{playerName, date}\<close> of every push to \<^verbatim>\<open>/winner-popup\<close>.
  Asynchronous functions are run to completion where they are called, and storage
  operations do not fail.
\<close>

record page =
  gameName :: string
  players :: "string list"
  grid :: "cell option list list"
  history :: "move list"
  originalGrid :: "cell option list list"
  originalHistory :: "move list"
  changesMade :: bool
  isWinnerDeclared :: bool
  hasSaved :: bool
  store :: storage
  pushed :: "(string option \<times> string) list"

section \<open>Session construction\<close>

definition rows :: "string list" where
  "rows = [''20'', ''19'', ''18'', ''17'', ''16'', ''15'', ''Bull'']"

text \<open>\<^verbatim>\<open>rows.map(() => Array(players.length).fill({ taps: 0 }))\<close>\<close>

definition initialGridState :: "string list \<Rightarrow> cell option list list" where
  "initialGridState ps = map (\<lambda>_. replicate (length ps) (Some \<lparr>taps = 0\<rparr>)) rows"

text \<open>
  The route parameters are strings that may be absent. \<^verbatim>\<open>JSON.parse\<close> belongs to the
  platform, so the three uses of it are parameters of the model; \<open>None\<close> is a thrown
  SyntaxError.
\<close>

record params =
  gameNameParam :: "string option"
  playersParam :: "string option"
  gridParam :: "string option"
  historyParam :: "string option"

record json =
  parsePlayers :: "string \<Rightarrow> string list option"
  parseGrid :: "string \<Rightarrow> cell option list list option"
  parseHistory :: "string \<Rightarrow> move list option"

text \<open>\<^verbatim>\<open>param ? JSON.parse(param) : fallback\<close>: an absent or empty string is falsy.\<close>

definition parse_or :: "(string \<Rightarrow> 'a option) \<Rightarrow> string option \<Rightarrow> 'a \<Rightarrow> error + 'a" where
  "parse_or parse param fallback =
     (case param of
        None \<Rightarrow> Inr fallback
      | Some s \<Rightarrow>
          if s = [] then Inr fallback
          else (case parse s of None \<Rightarrow> Inl SyntaxError | Some v \<Rightarrow> Inr v))"

text \<open>
  The first render of \<^verbatim>\<open>GameScreenPage\<close> in \<^verbatim>\<open>src/app/game-screen.js\<close>
  (lines 16 to 31). No parse is guarded there.
\<close>

definition GameScreenPage :: "json \<Rightarrow> params \<Rightarrow> storage \<Rightarrow> error + page" where
  "GameScreenPage js p st =
     (case parse_or (parsePlayers js) (playersParam p) [''Player 1'', ''Player 2''] of
        Inl e \<Rightarrow> Inl e
      | Inr ps \<Rightarrow>
          (case parse_or (parseGrid js) (gridParam p) (initialGridState ps) of
             Inl e \<Rightarrow> Inl e
           | Inr g \<Rightarrow>
               (case parse_or (parseHistory js) (historyParam p) [] of
                  Inl e \<Rightarrow> Inl e
                | Inr h \<Rightarrow>
                    Inr \<lparr> page.gameName = (case gameNameParam p of None \<Rightarrow> ''Game'' | Some n \<Rightarrow> n),
                          page.players = ps,
                          page.grid = g,
                          page.history = h,
                          originalGrid = g,
                          originalHistory = h,
                          changesMade = False,
                          isWinnerDeclared = False,
                          hasSaved = False,
                          store = st,
                          pushed = [] \<rparr>)))"

text \<open>
  The older copy of the screen, \<^verbatim>\<open>src/game-screen.js\<close> (lines 18 to 31), parses inside
  one \<^verbatim>\<open>try\<close> block: the variables start as the two default players, an empty grid and
  an empty history, each assignment that is reached before the throw is kept, and the
  handler of the exception redirects to the set-up screen. The result is the players, the
  grid, the history and whether the redirect happened.
\<close>

definition GameScreenPage_legacy ::
  "json \<Rightarrow> params \<Rightarrow> string list \<times> cell option list list \<times> move list \<times> bool" where
  "GameScreenPage_legacy js p =
     (case parse_or (parsePlayers js) (playersParam p) [''Player 1'', ''Player 2''] of
        Inl e \<Rightarrow> ([''Player 1'', ''Player 2''], [], [], True)
      | Inr ps \<Rightarrow>
          (case parse_or (parseGrid js) (gridParam p) (initialGridState ps) of
             Inl e \<Rightarrow> (ps, [], [], True)
           | Inr g \<Rightarrow>
               (case parse_or (parseHistory js) (historyParam p) [] of
                  Inl e \<Rightarrow> (ps, g, [], True)
                | Inr h \<Rightarrow> (ps, g, h, False))))"

section \<open>Record store\<close>

text \<open>\<^verbatim>\<open>existingGames ? JSON.parse(existingGames) : []\<close>\<close>

definition stored :: "game list option \<Rightarrow> game list" where
  "stored existingGames = (case existingGames of None \<Rightarrow> [] | Some games \<Rightarrow> games)"

text \<open>
  \<^verbatim>\<open>saveGame\<close> of \<^verbatim>\<open>src/app/game-screen.js\<close> (lines 89 to 113). The rows of the grid
  are shared between the state and every shallow copy of it and are written in place, so
  the grid that is serialised after the \<^verbatim>\<open>await\<close> is the current one.
\<close>

definition saveGame :: "clock \<Rightarrow> page \<Rightarrow> page" where
  "saveGame clk w =
     (let gameData = \<lparr> game.gameName = page.gameName w,
                       game.players = page.players w,
                       game.grid = page.grid w,
                       game.history = Some (page.history w),
                       date = localeDate clk,
                       time = None,
                       winner = None \<rparr>;
          games = stored (inProgressGames (store w));
          updatedGames = filter (\<lambda>g. game.gameName g \<noteq> page.gameName w) games @ [gameData]
      in w \<lparr> store := (store w) \<lparr> inProgressGames := Some updatedGames \<rparr>,
             originalGrid := page.grid w,
             changesMade := False,
             hasSaved := True \<rparr>)"

text \<open>
  \<^verbatim>\<open>saveGame\<close> of the older copy \<^verbatim>\<open>src/game-screen.js\<close> (lines 73 to 93), whose state
  variables are called \<^verbatim>\<open>gameGrid\<close> and \<^verbatim>\<open>moveHistory\<close>. Its first line returns when
  one of the two is falsy, which an array never is. It drops the stored records whose
  serialised grid equals the serialised \<^verbatim>\<open>originalGrid\<close> and writes no state.
\<close>

definition saveGame_legacy :: "clock \<Rightarrow> page \<Rightarrow> page" where
  "saveGame_legacy clk w =
     (let gameData = \<lparr> game.gameName = page.gameName w,
                       game.players = page.players w,
                       game.grid = page.grid w,
                       game.history = Some (page.history w),
                       date = localeDate clk,
                       time = None,
                       winner = None \<rparr>;
          games = stored (inProgressGames (store w));
          updatedGames = filter (\<lambda>g. game.grid g \<noteq> originalGrid w) games @ [gameData]
      in w \<lparr> store := (store w) \<lparr> inProgressGames := Some updatedGames \<rparr> \<rparr>)"

text \<open>\<^verbatim>\<open>saveResetGame\<close> (lines 195 to 220).\<close>

definition saveResetGame :: "clock \<Rightarrow> page \<Rightarrow> page" where
  "saveResetGame clk w =
     (let resetGameHistory = \<lparr> game.gameName = page.gameName w,
                               game.players = page.players w,
                               game.grid = initialGridState (page.players w),
                               game.history = Some [],
                               date = localeDate clk,
                               time = None,
                               winner = None \<rparr>;
          games = stored (inProgressGames (store w));
          updatedGames = filter (\<lambda>g. game.gameName g \<noteq> page.gameName w) games @ [resetGameHistory]
      in w \<lparr> store := (store w) \<lparr> inProgressGames := Some updatedGames \<rparr>,
             originalGrid := initialGridState (page.players w),
             originalHistory := [],
             changesMade := False \<rparr>)"

text \<open>\<^verbatim>\<open>removeFromInProgress\<close> (lines 228 to 238).\<close>

definition removeFromInProgress :: "page \<Rightarrow> page" where
  "removeFromInProgress w =
     (let inProgress = stored (inProgressGames (store w));
          updatedGames = filter (\<lambda>g. game.gameName g \<noteq> page.gameName w) inProgress
      in w \<lparr> store := (store w) \<lparr> inProgressGames := Some updatedGames \<rparr> \<rparr>)"

text \<open>
  \<^verbatim>\<open>saveCompletedGame\<close> (lines 245 to 265): the completed record is pushed onto the
  stored list, then the game is removed from the in-progress list.
\<close>

definition saveCompletedGame :: "clock \<Rightarrow> string option \<Rightarrow> page \<Rightarrow> page" where
  "saveCompletedGame clk winnerName w =
     (let completedGame = \<lparr> game.gameName = page.gameName w,
                            game.players = page.players w,
                            game.grid = page.grid w,
                            game.history = None,
                            date = localeDate clk,
                            time = Some (localeTime clk),
                            winner = winnerName \<rparr>;
          completed = stored (completedGames (store w)) @ [completedGame]
      in removeFromInProgress (w \<lparr> store := (store w) \<lparr> completedGames := Some completed \<rparr> \<rparr>))"

section \<open>Grid handlers\<close>

text \<open>\<^verbatim>\<open>grid.map(row => row[colIndex])\<close>: an index past the end of a row reads \<^verbatim>\<open>undefined\<close>.\<close>

definition column :: "cell option list list \<Rightarrow> nat \<Rightarrow> cell option list" where
  "column g c = map (\<lambda>row. if c < length row then row ! c else None) g"

text \<open>
  \<^verbatim>\<open>column.every(cell => cell.taps === 3)\<close>: \<^verbatim>\<open>every\<close> stops at the first cell that
  fails the test, and the test throws on a slot without a cell.
\<close>

fun every_taps_3 :: "cell option list \<Rightarrow> error + bool" where
  "every_taps_3 [] = Inr True"
| "every_taps_3 (None # cells) = Inl TypeError"
| "every_taps_3 (Some x # cells) = (if taps x = 3 then every_taps_3 cells else Inr False)"

text \<open>
  \<^verbatim>\<open>checkForWinner\<close> (lines 272 to 291). The delayed push to the winner screen is
  recorded at once, with the clock reading of the handler.
\<close>

definition checkForWinner :: "clock \<Rightarrow> cell option list list \<Rightarrow> nat \<Rightarrow> page \<Rightarrow> error + page" where
  "checkForWinner clk g c w =
     (case every_taps_3 (column g c) of
        Inl e \<Rightarrow> Inl e
      | Inr isWinner \<Rightarrow>
          if isWinner then
            (let winnerName = (if c < length (page.players w) then Some (page.players w ! c) else None);
                 w1 = saveCompletedGame clk winnerName (w \<lparr> isWinnerDeclared := True \<rparr>)
             in Inr (w1 \<lparr> pushed := pushed w1 @ [(winnerName, localeDate clk)] \<rparr>))
          else Inr w)"

text \<open>
  \<^verbatim>\<open>handleCellPress\<close> (lines 121 to 142). The copy \<^verbatim>\<open>[...prevGrid]\<close> is shallow, so the
  tapped row is written in place and the grid seen by \<^verbatim>\<open>saveCompletedGame\<close> is the new
  one.
\<close>

definition handleCellPress :: "clock \<Rightarrow> nat \<Rightarrow> nat \<Rightarrow> page \<Rightarrow> error + page" where
  "handleCellPress clk r c w =
     (if isWinnerDeclared w then Inr w
      else if length (page.grid w) \<le> r then Inl TypeError
      else
        (case (if c < length (page.grid w ! r) then page.grid w ! r ! c else None) of
           None \<Rightarrow> Inl TypeError
         | Some x \<Rightarrow>
             (let prev = taps x;
                  newTaps = min (prev + 1) 3;
                  newGrid = (page.grid w) [r := (page.grid w ! r) [c := Some \<lparr>taps = newTaps\<rparr>]];
                  w1 = w \<lparr> page.history := page.history w @
                                [\<lparr>rowIndex = r, colIndex = c, previousTaps = prev\<rparr>],
                          changesMade := True,
                          page.grid := newGrid \<rparr>
              in checkForWinner clk newGrid c w1)))"

text \<open>
  An assignment \<^verbatim>\<open>row[i] = v\<close>: past the end of the array JavaScript extends it and
  leaves the slots in between empty.
\<close>

definition assign_at :: "'a option list \<Rightarrow> nat \<Rightarrow> 'a \<Rightarrow> 'a option list" where
  "assign_at xs i v =
     (if i < length xs then xs [i := Some v]
      else xs @ replicate (i - length xs) None @ [Some v])"

text \<open>
  \<^verbatim>\<open>handleUndo\<close> (lines 149 to 165). \<^verbatim>\<open>history.pop()\<close> shortens the state array in
  place and the restored row is written in place, so the \<^verbatim>\<open>saveGame\<close> that follows
  persists the state after the undo.
\<close>

definition handleUndo :: "clock \<Rightarrow> page \<Rightarrow> error + page" where
  "handleUndo clk w =
     (if page.history w = [] \<or> isWinnerDeclared w then Inr w
      else
        (let lastMove = last (page.history w);
             r = rowIndex lastMove
         in if length (page.grid w) \<le> r then Inl TypeError
            else
              (let updatedGrid = (page.grid w)
                     [r := assign_at (page.grid w ! r) (colIndex lastMove)
                             \<lparr>taps = previousTaps lastMove\<rparr>]
               in Inr (saveGame clk (w \<lparr> page.grid := updatedGrid,
                                          page.history := butlast (page.history w),
                                          changesMade := True \<rparr>)))))"

text \<open>
  \<^verbatim>\<open>handleResetBoard\<close> (lines 172 to 186) asks for confirmation; the argument is the
  button of the alert that the user presses.
\<close>

datatype button = Cancel | Yes

definition handleResetBoard :: "button \<Rightarrow> clock \<Rightarrow> page \<Rightarrow> page" where
  "handleResetBoard b clk w =
     (case b of
        Cancel \<Rightarrow> w
      | Yes \<Rightarrow>
          saveResetGame clk
            (w \<lparr> page.grid := initialGridState (page.players w),
                 page.history := [],
                 originalGrid := initialGridState (page.players w),
                 changesMade := True \<rparr>))"

section \<open>Sequences of user actions\<close>

datatype action = Tap nat nat | Undo | Reset button

fun step :: "clock \<times> action \<Rightarrow> page \<Rightarrow> error + page" where
  "step (clk, Tap r c) w = handleCellPress clk r c w"
| "step (clk, Undo) w = handleUndo clk w"
| "step (clk, Reset b) w = Inr (handleResetBoard b clk w)"

fun run :: "(clock \<times> action) list \<Rightarrow> page \<Rightarrow> error + page" where
  "run [] w = Inr w"
| "run (a # as) w = (case step a w of Inl e \<Rightarrow> Inl e | Inr w' \<Rightarrow> run as w')"

section \<open>Invariants\<close>

text \<open>
  The shape of a grid for \<open>n\<close> players (seven rows of \<open>n\<close> cells, no empty slot), the
  grid invariant (the shape, and every cell between 0 and 3 taps), and the condition on
  a recorded move that \<^verbatim>\<open>handleUndo\<close> relies on.
\<close>

definition grid_shape :: "nat \<Rightarrow> cell option list list \<Rightarrow> bool" where
  "grid_shape n g =
     (length g = 7 \<and> list_all (\<lambda>row. length row = n \<and> list_all (\<lambda>x. x \<noteq> None) row) g)"

definition cell_ok :: "cell option \<Rightarrow> bool" where
  "cell_ok x = (case x of None \<Rightarrow> False | Some y \<Rightarrow> 0 \<le> taps y \<and> taps y \<le> 3)"

definition grid_inv :: "nat \<Rightarrow> cell option list list \<Rightarrow> bool" where
  "grid_inv n g = (length g = 7 \<and> list_all (\<lambda>row. length row = n \<and> list_all cell_ok row) g)"

definition move_ok :: "nat \<Rightarrow> move \<Rightarrow> bool" where
  "move_ok n m = (rowIndex m < 7 \<and> colIndex m < n \<and> 0 \<le> previousTaps m \<and> previousTaps m \<le> 3)"

definition page_inv :: "page \<Rightarrow> bool" where
  "page_inv w =
     (grid_inv (length (page.players w)) (page.grid w) \<and>
      list_all (move_ok (length (page.players w))) (page.history w))"

definition in_range :: "nat \<Rightarrow> action \<Rightarrow> bool" where
  "in_range n a = (case a of Tap r c \<Rightarrow> r < 7 \<and> c < n | _ \<Rightarrow> True)"

definition is_tap :: "nat \<Rightarrow> action \<Rightarrow> bool" where
  "is_tap n a = (case a of Tap r c \<Rightarrow> r < 7 \<and> c < n | _ \<Rightarrow> False)"

section \<open>Example states\<close>

text \<open>
  Concrete clock readings, pages and action lists at which the theorems below are
  instantiated. \<open>almost_page\<close> is a resumed two-player game in which the first player
  lacks one mark on the 20; \<open>won_page\<close> is the page after that mark is tapped.
\<close>

definition morning :: clock where
  "morning = \<lparr> localeDate = ''11/3/2026'', localeTime = ''9:15:00 AM'' \<rparr>"

definition evening :: clock where
  "evening = \<lparr> localeDate = ''11/4/2026'', localeTime = ''8:40:00 PM'' \<rparr>"

definition empty_storage :: storage where
  "empty_storage = \<lparr> inProgressGames = None, completedGames = None \<rparr>"

definition fresh_page :: page where
  "fresh_page =
     \<lparr> page.gameName = ''New Game'',
       page.players = [''Player 1'', ''Player 2''],
       page.grid = initialGridState [''Player 1'', ''Player 2''],
       page.history = [],
       originalGrid = initialGridState [''Player 1'', ''Player 2''],
       originalHistory = [],
       changesMade = False,
       isWinnerDeclared = False,
       hasSaved = False,
       store = empty_storage,
       pushed = [] \<rparr>"

definition closed_grid :: "cell option list list" where
  "closed_grid = replicate 7 [Some \<lparr>taps = 3\<rparr>, Some \<lparr>taps = 0\<rparr>]"

definition almost_grid :: "cell option list list" where
  "almost_grid = closed_grid [0 := [Some \<lparr>taps = 2\<rparr>, Some \<lparr>taps = 0\<rparr>]]"

definition earlier_win :: game where
  "earlier_win =
     \<lparr> game.gameName = ''New Game'', game.players = [''Player 1'', ''Player 2''],
       game.grid = closed_grid, game.history = None, date = ''11/1/2026'',
       time = Some ''7:30:00 PM'', winner = Some ''Player 1'' \<rparr>"

definition saved_almost :: game where
  "saved_almost =
     \<lparr> game.gameName = ''New Game'', game.players = [''Player 1'', ''Player 2''],
       game.grid = almost_grid, game.history = Some [], date = ''11/3/2026'',
       time = None, winner = None \<rparr>"

definition almost_page :: page where
  "almost_page =
     \<lparr> page.gameName = ''New Game'',
       page.players = [''Player 1'', ''Player 2''],
       page.grid = almost_grid,
       page.history = [],
       originalGrid = almost_grid,
       originalHistory = [],
       changesMade = False,
       isWinnerDeclared = False,
       hasSaved = False,
       store = \<lparr> inProgressGames = Some [saved_almost], completedGames = Some [earlier_win] \<rparr>,
       pushed = [] \<rparr>"

definition won_page :: page where
  "won_page =
     almost_page
       \<lparr> page.grid := closed_grid,
         page.history := [\<lparr>rowIndex = 0, colIndex = 0, previousTaps = 2\<rparr>],
         changesMade := True,
         isWinnerDeclared := True,
         store := \<lparr> inProgressGames = Some [],
                    completedGames = Some [earlier_win,
                      \<lparr> game.gameName = ''New Game'', game.players = [''Player 1'', ''Player 2''],
                        game.grid = closed_grid, game.history = None, date = ''11/4/2026'',
                        time = Some ''8:40:00 PM'', winner = Some ''Player 1'' \<rparr>] \<rparr>,
         pushed := [(Some ''Player 1'', ''11/4/2026'')] \<rparr>"

text \<open>
  The state in which the older \<^verbatim>\<open>saveGame\<close> runs after the second tap on the first
  cell of a new game: the rows of \<^verbatim>\<open>originalGrid\<close> are the rows of the grid, the
  history is the one of the render before the tap, and the storage holds the record that
  the first tap saved.
\<close>

definition one_tap_grid :: "cell option list list" where
  "one_tap_grid =
     (initialGridState [''Player 1'', ''Player 2''])
       [0 := [Some \<lparr>taps = 1\<rparr>, Some \<lparr>taps = 0\<rparr>]]"

definition two_tap_grid :: "cell option list list" where
  "two_tap_grid =
     (initialGridState [''Player 1'', ''Player 2''])
       [0 := [Some \<lparr>taps = 2\<rparr>, Some \<lparr>taps = 0\<rparr>]]"

definition legacy_page :: page where
  "legacy_page =
     fresh_page
       \<lparr> page.grid := two_tap_grid,
         page.history := [\<lparr>rowIndex = 0, colIndex = 0, previousTaps = 0\<rparr>],
         originalGrid := two_tap_grid,
         store := \<lparr> inProgressGames = Some
                      [\<lparr> game.gameName = ''New Game'', game.players = [''Player 1'', ''Player 2''],
                         game.grid = one_tap_grid, game.history = Some [], date = ''11/3/2026'',
                         time = None, winner = None \<rparr>],
                    completedGames = None \<rparr> \<rparr>"

text \<open>
  A stand-in for \<^verbatim>\<open>JSON.parse\<close> that knows one list of five names and the empty
  history and rejects every other text, and two sets of route parameters: one with the
  five names, one with a players text that lacks its closing bracket.
\<close>

definition demo_json :: json where
  \<open>demo_json =
     \<lparr> parsePlayers = (\<lambda>s. if s = ''["A","B","C","D","E"]''
                             then Some [''A'', ''B'', ''C'', ''D'', ''E''] else None),
       parseGrid = (\<lambda>s. None),
       parseHistory = (\<lambda>s. if s = ''[]'' then Some [] else None) \<rparr>\<close>

definition five_params :: params where
  \<open>five_params =
     \<lparr> gameNameParam = Some ''Big Game'', playersParam = Some ''["A","B","C","D","E"]'',
       gridParam = None, historyParam = None \<rparr>\<close>

definition bad_params :: params where
  \<open>bad_params =
     \<lparr> gameNameParam = Some ''New Game'', playersParam = Some ''["Ann","Bob"'',
       gridParam = None, historyParam = None \<rparr>\<close>

definition demo_actions :: "(clock \<times> action) list" where
  "demo_actions =
     [(morning, Tap 0 0), (morning, Tap 0 0), (morning, Undo), (morning, Tap 6 1),
      (evening, Reset Yes), (evening, Tap 3 1)]"

definition demo_taps :: "(clock \<times> action) list" where
  "demo_taps =
     [(morning, Tap 0 0), (morning, Tap 0 0), (morning, Tap 0 0), (morning, Tap 0 0),
      (evening, Tap 6 1)]"

lemmas demo_defs = morning_def evening_def closed_grid_def almost_grid_def earlier_win_def
  saved_almost_def almost_page_def won_page_def empty_storage_def fresh_page_def

section \<open>Auxiliary facts\<close>

subsection \<open>Grids\<close>

lemma stored_simps [simp]: "stored None = []" "stored (Some gs) = gs"
  by (simp_all add: stored_def)

lemma initialGridState_eq:
  "initialGridState ps = replicate 7 (replicate (length ps) (Some \<lparr>taps = 0\<rparr>))"
  by (simp add: initialGridState_def rows_def eval_nat_numeral)

lemma grid_inv_shape: "grid_inv n g \<Longrightarrow> grid_shape n g"
  unfolding grid_inv_def grid_shape_def list_all_iff cell_ok_def
  by (auto split: option.splits)

lemma grid_inv_initial: "grid_inv (length ps) (initialGridState ps)"
  by (simp add: initialGridState_eq grid_inv_def list_all_iff cell_ok_def)

lemma shape_cell:
  assumes "grid_shape n g" "r < 7" "c < n"
  shows "length (g ! r) = n" "\<exists>x. g ! r ! c = Some x"
proof -
  from assms have mem: "g ! r \<in> set g" by (simp add: grid_shape_def)
  with assms show len: "length (g ! r) = n" by (simp add: grid_shape_def list_all_iff)
  from mem assms have filled: "\<forall>x\<in>set (g ! r). x \<noteq> None"
    unfolding grid_shape_def list_all_iff by blast
  from len assms have "g ! r ! c \<in> set (g ! r)" by simp
  with filled have "g ! r ! c \<noteq> None" by blast
  then show "\<exists>x. g ! r ! c = Some x" by auto
qed

lemma shape_update:
  assumes "grid_shape n g" "r < 7" "c < n"
  shows "grid_shape n (g [r := (g ! r) [c := Some y]])"
proof -
  have len: "length (g ! r) = n" using shape_cell(1)[OF assms] .
  have row: "list_all (\<lambda>x. x \<noteq> None) (g ! r)"
    using assms by (auto simp: grid_shape_def list_all_iff)
  have "list_all (\<lambda>x. x \<noteq> None) ((g ! r) [c := Some y])"
    using row by (auto simp: list_all_iff dest: set_update_subset_insert [THEN subsetD])
  with assms len show ?thesis
    by (auto simp: grid_shape_def list_all_iff dest!: set_update_subset_insert [THEN subsetD])
qed

lemma inv_update:
  assumes "grid_inv n g" "r < 7" "c < n" "0 \<le> k" "k \<le> 3"
  shows "grid_inv n (g [r := (g ! r) [c := Some \<lparr>taps = k\<rparr>]])"
proof -
  have "g ! r \<in> set g" using assms by (simp add: grid_inv_def)
  with assms have len: "length (g ! r) = n" and row: "list_all cell_ok (g ! r)"
    by (auto simp: grid_inv_def list_all_iff)
  have "list_all cell_ok ((g ! r) [c := Some \<lparr>taps = k\<rparr>])"
    using row assms(4,5)
    by (auto simp: list_all_iff cell_ok_def dest!: set_update_subset_insert [THEN subsetD])
  with assms len show ?thesis
    by (auto simp: grid_inv_def list_all_iff dest!: set_update_subset_insert [THEN subsetD])
qed

lemma every_taps_3_column:
  "list_all (\<lambda>row. c < length row \<and> row ! c \<noteq> None) g \<Longrightarrow>
   every_taps_3 (column g c) = Inr (list_all (\<lambda>row. row ! c = Some \<lparr>taps = 3\<rparr>) g)"
proof (induction g)
  case Nil
  then show ?case by (simp add: column_def)
next
  case (Cons row g)
  then obtain x where x: "row ! c = Some x" and c: "c < length row" by auto
  have "(x = \<lparr>taps = 3\<rparr>) = (taps x = 3)" by (cases x) simp
  with Cons x c show ?case by (simp add: column_def)
qed

lemma every_taps_3_shape:
  assumes "grid_shape n g" "c < n"
  shows "every_taps_3 (column g c) = Inr (list_all (\<lambda>row. row ! c = Some \<lparr>taps = 3\<rparr>) g)"
proof (rule every_taps_3_column)
  show "list_all (\<lambda>row. c < length row \<and> row ! c \<noteq> None) g"
    using assms by (auto simp: grid_shape_def list_all_iff)
qed

lemma closed_column_iff:
  assumes "length g = 7"
  shows "list_all (\<lambda>row. row ! c = Some \<lparr>taps = 3\<rparr>) g = (\<forall>i<7. g ! i ! c = Some \<lparr>taps = 3\<rparr>)"
  using assms by (auto simp: list_all_length)

subsection \<open>Effect of the handlers on the page\<close>

lemma handleCellPress_refused: "isWinnerDeclared w \<Longrightarrow> handleCellPress clk r c w = Inr w"
  by (simp add: handleCellPress_def)

lemma handleUndo_refused:
  "page.history w = [] \<or> isWinnerDeclared w \<Longrightarrow> handleUndo clk w = Inr w"
  by (simp add: handleUndo_def)

lemma handleCellPress_active:
  assumes active: "\<not> isWinnerDeclared w"
    and shape: "grid_shape (length (page.players w)) (page.grid w)"
    and r: "r < 7" and c: "c < length (page.players w)"
    and x: "page.grid w ! r ! c = Some x"
  shows "\<exists>w'. handleCellPress clk r c w = Inr w' \<and>
           page.grid w' = (page.grid w) [r := (page.grid w ! r) [c := Some \<lparr>taps = min (taps x + 1) 3\<rparr>]] \<and>
           page.history w' = page.history w @ [\<lparr>rowIndex = r, colIndex = c, previousTaps = taps x\<rparr>] \<and>
           page.players w' = page.players w \<and>
           page.gameName w' = page.gameName w \<and>
           isWinnerDeclared w' = list_all (\<lambda>row. row ! c = Some \<lparr>taps = 3\<rparr>) (page.grid w') \<and>
           pushed w' = pushed w @
             (if isWinnerDeclared w' then [(Some (page.players w ! c), localeDate clk)] else []) \<and>
           map game.winner (stored (completedGames (store w'))) =
             map game.winner (stored (completedGames (store w))) @
               (if isWinnerDeclared w' then [Some (page.players w ! c)] else [])"
proof -
  let ?g = "(page.grid w) [r := (page.grid w ! r) [c := Some \<lparr>taps = min (taps x + 1) 3\<rparr>]]"
  have len: "length (page.grid w) = 7" using shape by (simp add: grid_shape_def)
  have rowlen: "length (page.grid w ! r) = length (page.players w)"
    using shape_cell(1)[OF shape r c] .
  have every: "every_taps_3 (column ?g c) = Inr (list_all (\<lambda>row. row ! c = Some \<lparr>taps = 3\<rparr>) ?g)"
    using every_taps_3_shape[OF shape_update[OF shape r c] c] .
  show ?thesis
    using active len r c rowlen x every
    by (simp add: handleCellPress_def checkForWinner_def saveCompletedGame_def
        removeFromInProgress_def Let_def)
qed

lemma handleUndo_active:
  assumes active: "\<not> isWinnerDeclared w"
    and h: "page.history w = h @ [m]"
    and r: "rowIndex m < length (page.grid w)"
    and c: "colIndex m < length (page.grid w ! rowIndex m)"
  shows "\<exists>w'. handleUndo clk w = Inr w' \<and>
           page.grid w' = (page.grid w) [rowIndex m :=
              (page.grid w ! rowIndex m) [colIndex m := Some \<lparr>taps = previousTaps m\<rparr>]] \<and>
           page.history w' = h \<and>
           page.players w' = page.players w \<and>
           page.gameName w' = page.gameName w \<and>
           isWinnerDeclared w' = isWinnerDeclared w"
  using assms
  by (simp add: handleUndo_def saveGame_def assign_at_def Let_def)

lemma handleResetBoard_fields:
  "page.grid (handleResetBoard Yes clk w) = initialGridState (page.players w)"
  "page.history (handleResetBoard Yes clk w) = []"
  "page.players (handleResetBoard b clk w) = page.players w"
  "page.gameName (handleResetBoard b clk w) = page.gameName w"
  "isWinnerDeclared (handleResetBoard b clk w) = isWinnerDeclared w"
  "handleResetBoard Cancel clk w = w"
  by (cases b; simp add: handleResetBoard_def saveResetGame_def Let_def)+

lemma winning_tap: "handleCellPress evening 0 0 almost_page = Inr won_page"
  by (simp add: demo_defs handleCellPress_def checkForWinner_def column_def saveCompletedGame_def
      removeFromInProgress_def Let_def eval_nat_numeral)

subsection \<open>Preservation of the invariant\<close>

lemma inv_cell:
  assumes "grid_inv n g" "r < 7" "c < n" "g ! r ! c = Some x"
  shows "0 \<le> taps x \<and> taps x \<le> 3"
proof -
  from assms have mem: "g ! r \<in> set g" by (simp add: grid_inv_def)
  with assms have len: "length (g ! r) = n" unfolding grid_inv_def list_all_iff by blast
  from mem assms have ok: "\<forall>y\<in>set (g ! r). cell_ok y"
    unfolding grid_inv_def list_all_iff by blast
  from len assms(3) have "g ! r ! c \<in> set (g ! r)" by (intro nth_mem) simp
  with ok assms(4) have "cell_ok (Some x)" by metis
  then show ?thesis by (simp add: cell_ok_def)
qed

lemma tap_preserves_inv:
  assumes inv: "page_inv w" and r: "r < 7" and c: "c < length (page.players w)"
  shows "\<exists>w'. handleCellPress clk r c w = Inr w' \<and> page.players w' = page.players w \<and> page_inv w'"
proof (cases "isWinnerDeclared w")
  case True
  with inv show ?thesis by (simp add: handleCellPress_refused)
next
  case False
  let ?n = "length (page.players w)"
  have ginv: "grid_inv ?n (page.grid w)" and hinv: "list_all (move_ok ?n) (page.history w)"
    using inv by (simp_all add: page_inv_def)
  have shape: "grid_shape ?n (page.grid w)" using ginv by (rule grid_inv_shape)
  obtain x where x: "page.grid w ! r ! c = Some x" using shape_cell(2)[OF shape r c] by blast
  have bounds: "0 \<le> taps x \<and> taps x \<le> 3" using inv_cell[OF ginv r c x] .
  obtain w' where w': "handleCellPress clk r c w = Inr w'"
    "page.grid w' = (page.grid w) [r := (page.grid w ! r) [c := Some \<lparr>taps = min (taps x + 1) 3\<rparr>]]"
    "page.history w' = page.history w @ [\<lparr>rowIndex = r, colIndex = c, previousTaps = taps x\<rparr>]"
    "page.players w' = page.players w"
    using handleCellPress_active[OF False shape r c x, of clk] by blast
  have "grid_inv ?n (page.grid w')"
    unfolding w'(2) using bounds by (intro inv_update[OF ginv r c]) auto
  moreover have "list_all (move_ok ?n) (page.history w')"
    unfolding w'(3) using hinv r c bounds by (simp add: move_ok_def)
  ultimately have "page_inv w'" by (simp add: page_inv_def w'(4))
  with w'(1,4) show ?thesis by blast
qed

lemma undo_preserves_inv:
  assumes inv: "page_inv w"
  shows "\<exists>w'. handleUndo clk w = Inr w' \<and> page.players w' = page.players w \<and> page_inv w'"
proof (cases "page.history w = [] \<or> isWinnerDeclared w")
  case True
  with inv show ?thesis by (simp add: handleUndo_refused)
next
  case False
  let ?n = "length (page.players w)"
  let ?m = "last (page.history w)"
  have ginv: "grid_inv ?n (page.grid w)" and hinv: "list_all (move_ok ?n) (page.history w)"
    using inv by (simp_all add: page_inv_def)
  have h: "page.history w = butlast (page.history w) @ [?m]" using False by simp
  have "?m \<in> set (page.history w)" using False by simp
  with hinv have m: "move_ok ?n ?m" unfolding list_all_iff by blast
  then have r: "rowIndex ?m < 7" and c: "colIndex ?m < ?n"
    and p: "0 \<le> previousTaps ?m" "previousTaps ?m \<le> 3"
    by (simp_all add: move_ok_def)
  have shape: "grid_shape ?n (page.grid w)" using ginv by (rule grid_inv_shape)
  have len: "length (page.grid w) = 7" using ginv by (simp add: grid_inv_def)
  have rowlen: "length (page.grid w ! rowIndex ?m) = ?n" using shape_cell(1)[OF shape r c] .
  obtain w' where w': "handleUndo clk w = Inr w'"
    "page.grid w' = (page.grid w) [rowIndex ?m :=
        (page.grid w ! rowIndex ?m) [colIndex ?m := Some \<lparr>taps = previousTaps ?m\<rparr>]]"
    "page.history w' = butlast (page.history w)"
    "page.players w' = page.players w"
    using handleUndo_active[of w "butlast (page.history w)" ?m clk] False h r c len rowlen
    by auto
  have "grid_inv ?n (page.grid w')"
    unfolding w'(2) by (rule inv_update[OF ginv r c p])
  moreover have "list_all (move_ok ?n) (page.history w')"
    unfolding w'(3) using hinv unfolding list_all_iff by (blast dest: in_set_butlastD)
  ultimately have "page_inv w'" by (simp add: page_inv_def w'(4))
  with w'(1,4) show ?thesis by blast
qed

lemma reset_preserves_inv:
  assumes inv: "page_inv w"
  shows "page.players (handleResetBoard b clk w) = page.players w \<and> page_inv (handleResetBoard b clk w)"
proof (cases b)
  case Cancel
  with inv show ?thesis by (simp add: handleResetBoard_fields)
next
  case Yes
  then show ?thesis
    by (simp add: page_inv_def handleResetBoard_fields grid_inv_initial)
qed

lemma step_preserves_inv:
  assumes "page_inv w" "in_range (length (page.players w)) a"
  shows "\<exists>w'. step (clk, a) w = Inr w' \<and> page.players w' = page.players w \<and> page_inv w'"
proof (cases a)
  case (Tap r c)
  with assms show ?thesis using tap_preserves_inv[of w r c clk] by (simp add: in_range_def)
next
  case Undo
  with assms show ?thesis using undo_preserves_inv[of w clk] by simp
next
  case (Reset b)
  with assms show ?thesis using reset_preserves_inv[of w b clk] by simp
qed

lemma run_preserves_inv:
  "page_inv w \<Longrightarrow> list_all (in_range (length (page.players w))) (map snd acts) \<Longrightarrow>
   \<exists>w'. run acts w = Inr w' \<and> page.players w' = page.players w \<and> page_inv w'"
proof (induction acts arbitrary: w)
  case Nil
  then show ?case by simp
next
  case (Cons a acts)
  obtain clk b where a: "a = (clk, b)" by (cases a)
  from Cons.prems a obtain w1 where w1: "step (clk, b) w = Inr w1"
    "page.players w1 = page.players w" "page_inv w1"
    using step_preserves_inv[of w b clk] by auto
  from Cons.prems w1 have "list_all (in_range (length (page.players w1))) (map snd acts)" by simp
  from Cons.IH[OF w1(3) this] obtain w' where "run acts w1 = Inr w'"
    "page.players w' = page.players w1" "page_inv w'" by blast
  with a w1 show ?case by simp
qed

lemma tap_preserves_grid_inv:
  assumes ginv: "grid_inv (length (page.players w)) (page.grid w)"
    and r: "r < 7" and c: "c < length (page.players w)"
  shows "\<exists>w'. handleCellPress clk r c w = Inr w' \<and> page.players w' = page.players w \<and>
           grid_inv (length (page.players w)) (page.grid w')"
proof (cases "isWinnerDeclared w")
  case True
  with ginv show ?thesis by (simp add: handleCellPress_refused)
next
  case False
  let ?n = "length (page.players w)"
  have shape: "grid_shape ?n (page.grid w)" using ginv by (rule grid_inv_shape)
  obtain x where x: "page.grid w ! r ! c = Some x" using shape_cell(2)[OF shape r c] by blast
  have bounds: "0 \<le> taps x \<and> taps x \<le> 3" using inv_cell[OF ginv r c x] .
  obtain w' where w': "handleCellPress clk r c w = Inr w'"
    "page.grid w' = (page.grid w) [r := (page.grid w ! r) [c := Some \<lparr>taps = min (taps x + 1) 3\<rparr>]]"
    "page.players w' = page.players w"
    using handleCellPress_active[OF False shape r c x, of clk] by blast
  have "grid_inv ?n (page.grid w')"
    unfolding w'(2) using bounds by (intro inv_update[OF ginv r c]) auto
  with w'(1,3) show ?thesis by blast
qed

lemma run_taps_grid_inv:
  "grid_inv (length (page.players w)) (page.grid w) \<Longrightarrow>
   list_all (is_tap (length (page.players w))) (map snd acts) \<Longrightarrow>
   \<exists>w'. run acts w = Inr w' \<and> page.players w' = page.players w \<and>
         grid_inv (length (page.players w)) (page.grid w')"
proof (induction acts arbitrary: w)
  case Nil
  then show ?case by simp
next
  case (Cons a acts)
  from Cons.prems(2) obtain clk r c where a: "a = (clk, Tap r c)"
    and rc: "r < 7" "c < length (page.players w)"
    by (cases a; cases "snd a") (auto simp: is_tap_def)
  from tap_preserves_grid_inv[OF Cons.prems(1) rc, of clk]
  obtain w1 where w1: "handleCellPress clk r c w = Inr w1" "page.players w1 = page.players w"
    "grid_inv (length (page.players w)) (page.grid w1)" by blast
  from Cons.prems(2) w1 have "list_all (is_tap (length (page.players w1))) (map snd acts)" by simp
  from Cons.IH[of w1] w1 this obtain w' where "run acts w1 = Inr w'"
    "page.players w' = page.players w1" "grid_inv (length (page.players w1)) (page.grid w')"
    by auto
  with a w1 show ?case by simp
qed

lemma new_session_inv:
  assumes "GameScreenPage js p st = Inr w" "gridParam p = None" "historyParam p = None"
  shows "page_inv w"
proof -
  from assms obtain ps where
    "parse_or (parsePlayers js) (playersParam p) [''Player 1'', ''Player 2''] = Inr ps"
    and "page.players w = ps" "page.grid w = initialGridState ps" "page.history w = []"
    by (auto simp: GameScreenPage_def parse_or_def split: sum.splits)
  then show ?thesis by (simp add: page_inv_def grid_inv_initial)
qed

lemma fresh_page_inv: "page_inv fresh_page"
  by (simp add: fresh_page_def page_inv_def grid_inv_initial[of "[''Player 1'', ''Player 2'']", simplified])

subsection \<open>Runs of taps\<close>

lemma run_taps_refused:
  "isWinnerDeclared w \<Longrightarrow> list_all (is_tap n) (map snd acts) \<Longrightarrow> run acts w = Inr w"
proof (induction acts)
  case Nil
  then show ?case by simp
next
  case (Cons a acts)
  from Cons.prems(2) obtain clk r c where "a = (clk, Tap r c)"
    by (cases a; cases "snd a") (auto simp: is_tap_def)
  with Cons show ?case by (simp add: handleCellPress_refused)
qed

lemma run_taps_history:
  "grid_shape (length (page.players w)) (page.grid w) \<Longrightarrow>
   list_all (is_tap (length (page.players w))) (map snd acts) \<Longrightarrow>
   run (butlast acts) w = Inr w1 \<Longrightarrow> \<not> isWinnerDeclared w1 \<Longrightarrow>
   \<exists>w'. run acts w = Inr w' \<and>
        length (page.history w') = length (page.history w) + length acts"
proof (induction acts arbitrary: w)
  case Nil
  then show ?case by simp
next
  case (Cons a acts)
  let ?n = "length (page.players w)"
  from Cons.prems(2) obtain clk r c where a: "a = (clk, Tap r c)"
    and rc: "r < 7" "c < ?n"
    by (cases a; cases "snd a") (auto simp: is_tap_def)
  have taps: "list_all (is_tap ?n) (map snd acts)" using Cons.prems(2) by simp
  have taps': "list_all (is_tap ?n) (map snd (butlast acts))"
    using taps unfolding list_all_iff by (auto dest: in_set_butlastD)
  have active: "\<not> isWinnerDeclared w"
  proof
    assume won: "isWinnerDeclared w"
    have "run (butlast (a # acts)) w = Inr w"
    proof (cases "acts = []")
      case True
      then show ?thesis by simp
    next
      case False
      with a won run_taps_refused[OF won taps'] show ?thesis
        by (simp add: handleCellPress_refused)
    qed
    with Cons.prems(3,4) won show False by simp
  qed
  obtain x where x: "page.grid w ! r ! c = Some x"
    using shape_cell(2)[OF Cons.prems(1) rc] by blast
  obtain w2 where w2: "handleCellPress clk r c w = Inr w2"
    "page.grid w2 = (page.grid w) [r := (page.grid w ! r) [c := Some \<lparr>taps = min (taps x + 1) 3\<rparr>]]"
    "page.history w2 = page.history w @ [\<lparr>rowIndex = r, colIndex = c, previousTaps = taps x\<rparr>]"
    "page.players w2 = page.players w"
    using handleCellPress_active[OF active Cons.prems(1) rc x, of clk] by blast
  show ?case
  proof (cases "acts = []")
    case True
    with a w2 show ?thesis by simp
  next
    case False
    have shape2: "grid_shape (length (page.players w2)) (page.grid w2)"
      unfolding w2(2,4) by (rule shape_update[OF Cons.prems(1) rc])
    have taps2: "list_all (is_tap (length (page.players w2))) (map snd acts)"
      using taps by (simp add: w2(4))
    have "run (butlast acts) w2 = Inr w1"
      using Cons.prems(3) False a w2(1) by simp
    from Cons.IH[OF shape2 taps2 this Cons.prems(4)]
    obtain w' where "run acts w2 = Inr w'"
      "length (page.history w') = length (page.history w2) + length acts" by blast
    with a w2 show ?thesis by simp
  qed
qed

lemma demo_taps_run:
  "\<exists>w1. run (butlast demo_taps) fresh_page = Inr w1 \<and> \<not> isWinnerDeclared w1"
  by (simp add: demo_taps_def fresh_page_def initialGridState_eq handleCellPress_def
      checkForWinner_def column_def Let_def eval_nat_numeral morning_def evening_def)

subsection \<open>Stored collections\<close>

lemma inProgress_saveGame:
  "stored (inProgressGames (store (saveGame clk w))) =
     filter (\<lambda>g. game.gameName g \<noteq> page.gameName w) (stored (inProgressGames (store w))) @
       [\<lparr> game.gameName = page.gameName w, game.players = page.players w,
          game.grid = page.grid w, game.history = Some (page.history w),
          date = localeDate clk, time = None, winner = None \<rparr>]"
  by (simp add: saveGame_def Let_def)

lemma inProgress_saveResetGame:
  "stored (inProgressGames (store (saveResetGame clk w))) =
     filter (\<lambda>g. game.gameName g \<noteq> page.gameName w) (stored (inProgressGames (store w))) @
       [\<lparr> game.gameName = page.gameName w, game.players = page.players w,
          game.grid = initialGridState (page.players w), game.history = Some [],
          date = localeDate clk, time = None, winner = None \<rparr>]"
  by (simp add: saveResetGame_def Let_def)

lemma gameName_saves [simp]:
  "page.gameName (saveGame clk w) = page.gameName w"
  "page.gameName (saveResetGame clk w) = page.gameName w"
  by (simp_all add: saveGame_def saveResetGame_def Let_def)

lemma saveGame_upsert:
  "filter (\<lambda>g. game.gameName g = page.gameName w)
     (stored (inProgressGames (store (saveGame clk w)))) =
     [\<lparr> game.gameName = page.gameName w, game.players = page.players w,
        game.grid = page.grid w, game.history = Some (page.history w),
        date = localeDate clk, time = None, winner = None \<rparr>] \<and>
   filter (\<lambda>g. game.gameName g \<noteq> page.gameName w)
     (stored (inProgressGames (store (saveGame clk w)))) =
     filter (\<lambda>g. game.gameName g \<noteq> page.gameName w) (stored (inProgressGames (store w))) \<and>
   length (filter (\<lambda>g. game.gameName g = page.gameName w)
     (stored (inProgressGames (store (saveGame clk2 (saveGame clk w)))))) = 1"
  by (simp add: inProgress_saveGame)

lemma inProgress_saveGame_legacy:
  "stored (inProgressGames (store (saveGame_legacy clk w))) =
     filter (\<lambda>g. game.grid g \<noteq> originalGrid w) (stored (inProgressGames (store w))) @
       [\<lparr> game.gameName = page.gameName w, game.players = page.players w,
          game.grid = page.grid w, game.history = Some (page.history w),
          date = localeDate clk, time = None, winner = None \<rparr>]"
  by (simp add: saveGame_legacy_def Let_def)

subsection \<open>Parameters that do not parse\<close>

lemma malformed_param_fails:
  assumes "s \<noteq> []"
  shows "playersParam p = Some s \<Longrightarrow> parsePlayers js s = None \<Longrightarrow>
           GameScreenPage js p st = Inl SyntaxError"
    and "parse_or (parsePlayers js) (playersParam p) [''Player 1'', ''Player 2''] = Inr ps \<Longrightarrow>
         gridParam p = Some s \<Longrightarrow> parseGrid js s = None \<Longrightarrow>
           GameScreenPage js p st = Inl SyntaxError"
    and "parse_or (parsePlayers js) (playersParam p) [''Player 1'', ''Player 2''] = Inr ps \<Longrightarrow>
         parse_or (parseGrid js) (gridParam p) (initialGridState ps) = Inr g \<Longrightarrow>
         historyParam p = Some s \<Longrightarrow> parseHistory js s = None \<Longrightarrow>
           GameScreenPage js p st = Inl SyntaxError"
  using assms by (simp_all add: GameScreenPage_def parse_or_def)

subsection \<open>Refusals after a win\<close>

lemma won_refuses_tap_and_undo:
  "isWinnerDeclared w \<Longrightarrow> handleCellPress clk r c w = Inr w \<and> handleUndo clk w = Inr w"
  by (simp add: handleCellPress_refused handleUndo_refused)

section \<open>The claims\<close>

text \<open>
  Claim C1: saving the active game removes every in-progress record whose
  \<^verbatim>\<open>gameName\<close> equals the name of the game and appends the new record, so identity is
  by name and never by content. \<open>saveGame_upsert\<close> above shows this for
  \<^verbatim>\<open>src/app/game-screen.js\<close>. The older \<^verbatim>\<open>saveGame\<close> of \<^verbatim>\<open>src/game-screen.js\<close>
  compares serialised grids instead: at \<open>legacy_page\<close> the stored record of the same
  name has another grid and is kept, so the collection ends with two records named
  \<^verbatim>\<open>New Game\<close>, where the newer \<^verbatim>\<open>saveGame\<close> leaves one.
\<close>
theorem saveGame_legacy_keeps_same_name:
  "map game.gameName (stored (inProgressGames (store legacy_page))) = [''New Game''] \<and>
   map game.gameName (stored (inProgressGames (store (saveGame_legacy evening legacy_page)))) =
     [''New Game'', ''New Game''] \<and>
   map game.gameName (stored (inProgressGames (store (saveGame evening legacy_page)))) =
     [''New Game'']"
  by (simp add: legacy_page_def fresh_page_def saveGame_legacy_def saveGame_def Let_def
      one_tap_grid_def two_tap_grid_def initialGridState_eq eval_nat_numeral)

text \<open>
  Claim C2, as the code has it: \<^verbatim>\<open>saveCompletedGame\<close> leaves no in-progress record with
  the name of the game and appends one record bearing the winner name to the completed
  collection without removing anything, so the number of completed records with that
  name grows by one.
\<close>
theorem saveCompletedGame_appends:
  "filter (\<lambda>g. game.gameName g = page.gameName w)
     (stored (inProgressGames (store (saveCompletedGame clk winnerName w)))) = [] \<and>
   stored (completedGames (store (saveCompletedGame clk winnerName w))) =
     stored (completedGames (store w)) @
       [\<lparr> game.gameName = page.gameName w, game.players = page.players w,
          game.grid = page.grid w, game.history = None,
          date = localeDate clk, time = Some (localeTime clk), winner = winnerName \<rparr>] \<and>
   length (filter (\<lambda>g. game.gameName g = page.gameName w)
     (stored (completedGames (store (saveCompletedGame clk winnerName w))))) =
     Suc (length (filter (\<lambda>g. game.gameName g = page.gameName w)
       (stored (completedGames (store w)))))"
  by (simp add: saveCompletedGame_def removeFromInProgress_def Let_def filter_empty_conv)

text \<open>
  The completed collection of \<open>almost_page\<close> already holds a game called
  \<^verbatim>\<open>New Game\<close> that the first player won; after the migration it holds two records of
  that name with that winner.
\<close>
theorem saveCompletedGame_counterexample:
  "map game.gameName (stored (inProgressGames (store almost_page))) = [''New Game''] \<and>
   map game.gameName (stored (completedGames (store
      (saveCompletedGame evening (Some ''Player 1'') almost_page)))) = [''New Game'', ''New Game''] \<and>
   map game.winner (stored (completedGames (store
      (saveCompletedGame evening (Some ''Player 1'') almost_page)))) =
     [Some ''Player 1'', Some ''Player 1'']"
  by (simp add: demo_defs saveCompletedGame_def removeFromInProgress_def Let_def)

text \<open>
  Claim C3: once a winner is declared, taps and undo are refused
  (\<open>won_refuses_tap_and_undo\<close> above) and the reset is disabled too.
  \<^verbatim>\<open>handleResetBoard\<close> has no test of \<^verbatim>\<open>isWinnerDeclared\<close>: on the page reached by the
  winning tap, a confirmed reset replaces the closed grid by the initial one, empties the
  history and writes the game back into the in-progress collection.
\<close>
theorem reset_after_win:
  "handleCellPress evening 0 0 almost_page = Inr won_page \<and>
   isWinnerDeclared won_page \<and>
   page.grid won_page = closed_grid \<and>
   page.grid (handleResetBoard Yes evening won_page) =
     replicate 7 [Some \<lparr>taps = 0\<rparr>, Some \<lparr>taps = 0\<rparr>] \<and>
   page.history won_page = [\<lparr>rowIndex = 0, colIndex = 0, previousTaps = 2\<rparr>] \<and>
   page.history (handleResetBoard Yes evening won_page) = [] \<and>
   map game.gameName (stored (inProgressGames (store won_page))) = [] \<and>
   map game.gameName (stored (inProgressGames (store (handleResetBoard Yes evening won_page)))) =
     [''New Game'']"
proof -
  have won: "isWinnerDeclared won_page" "page.grid won_page = closed_grid"
    "page.history won_page = [\<lparr>rowIndex = 0, colIndex = 0, previousTaps = 2\<rparr>]"
    "map game.gameName (stored (inProgressGames (store won_page))) = []"
    by (simp_all add: won_page_def)
  have grid: "page.grid (handleResetBoard Yes evening won_page) =
      replicate 7 [Some \<lparr>taps = 0\<rparr>, Some \<lparr>taps = 0\<rparr>]"
    by (simp add: handleResetBoard_fields initialGridState_eq won_page_def almost_page_def)
  have stored: "map game.gameName
      (stored (inProgressGames (store (handleResetBoard Yes evening won_page)))) = [''New Game'']"
    by (simp add: handleResetBoard_def inProgress_saveResetGame won_page_def almost_page_def)
  from winning_tap won grid stored show ?thesis
    by (simp add: handleResetBoard_fields)
qed

text \<open>
  Claim C4: on a grid of seven rows with one cell per player and with no winner declared
  yet, a tap in row \<open>r\<close> and column \<open>c\<close> returns the grid in which that one cell has
  gained a tap (up to three), declares a winner if and only if all seven cells of column
  \<open>c\<close> hold three taps in that grid, and reports the winner exactly then: the push to
  the winner screen and the winner of the completed record are the player of the tapped
  column, and nothing is pushed or completed otherwise. So a tap in a column that is
  already closed names that column, never another one.
\<close>
theorem tap_reports_closed_column:
  assumes "\<not> isWinnerDeclared w"
    and "grid_shape (length (page.players w)) (page.grid w)"
    and "r < 7" and "c < length (page.players w)"
  shows "\<exists>x w'. page.grid w ! r ! c = Some x \<and>
           handleCellPress clk r c w = Inr w' \<and>
           page.grid w' =
             (page.grid w) [r := (page.grid w ! r) [c := Some \<lparr>taps = min (taps x + 1) 3\<rparr>]] \<and>
           (isWinnerDeclared w' \<longleftrightarrow> (\<forall>i<7. page.grid w' ! i ! c = Some \<lparr>taps = 3\<rparr>)) \<and>
           pushed w' = pushed w @
             (if isWinnerDeclared w' then [(Some (page.players w ! c), localeDate clk)] else []) \<and>
           map game.winner (stored (completedGames (store w'))) =
             map game.winner (stored (completedGames (store w))) @
               (if isWinnerDeclared w' then [Some (page.players w ! c)] else [])"
proof -
  obtain x where x: "page.grid w ! r ! c = Some x"
    using shape_cell(2)[OF assms(2,3,4)] by blast
  obtain w' where w': "handleCellPress clk r c w = Inr w'"
    "page.grid w' = (page.grid w) [r := (page.grid w ! r) [c := Some \<lparr>taps = min (taps x + 1) 3\<rparr>]]"
    "isWinnerDeclared w' = list_all (\<lambda>row. row ! c = Some \<lparr>taps = 3\<rparr>) (page.grid w')"
    "pushed w' = pushed w @
       (if isWinnerDeclared w' then [(Some (page.players w ! c), localeDate clk)] else [])"
    "map game.winner (stored (completedGames (store w'))) =
       map game.winner (stored (completedGames (store w))) @
         (if isWinnerDeclared w' then [Some (page.players w ! c)] else [])"
    using handleCellPress_active[OF assms x, of clk] by blast
  have "length (page.grid w') = 7" using assms(2) by (simp add: w'(2) grid_shape_def)
  from closed_column_iff[OF this, of c] w'(3)
  have "isWinnerDeclared w' \<longleftrightarrow> (\<forall>i<7. page.grid w' ! i ! c = Some \<lparr>taps = 3\<rparr>)" by simp
  with x w'(1,2,4,5) show ?thesis by blast
qed

text \<open>
  Three taps: the one that closes the first column of \<open>almost_page\<close> and reports the
  first player; a tap on a new board, which reports nobody; and a tap in the first column
  of a resumed board on which that column is closed already, which reports the first
  player again and not the second.
\<close>
theorem tap_reports_closed_column_witness:
  "\<not> isWinnerDeclared almost_page \<and>
   grid_shape (length (page.players almost_page)) (page.grid almost_page) \<and>
   (\<exists>w'. handleCellPress evening 0 0 almost_page = Inr w' \<and>
      page.grid w' = closed_grid \<and> isWinnerDeclared w' \<and>
      pushed w' = [(Some ''Player 1'', ''11/4/2026'')] \<and>
      map game.winner (stored (completedGames (store w'))) =
        [Some ''Player 1'', Some ''Player 1'']) \<and>
   \<not> isWinnerDeclared fresh_page \<and>
   grid_shape (length (page.players fresh_page)) (page.grid fresh_page) \<and>
   (\<exists>w'. handleCellPress morning 2 1 fresh_page = Inr w' \<and>
      page.grid w' = (initialGridState [''Player 1'', ''Player 2''])
        [2 := [Some \<lparr>taps = 0\<rparr>, Some \<lparr>taps = 1\<rparr>]] \<and>
      \<not> isWinnerDeclared w' \<and> pushed w' = [] \<and>
      map game.winner (stored (completedGames (store w'))) = []) \<and>
   \<not> isWinnerDeclared (almost_page \<lparr>page.grid := closed_grid\<rparr>) \<and>
   grid_shape (length (page.players (almost_page \<lparr>page.grid := closed_grid\<rparr>)))
     (page.grid (almost_page \<lparr>page.grid := closed_grid\<rparr>)) \<and>
   (\<exists>w'. handleCellPress evening 3 0 (almost_page \<lparr>page.grid := closed_grid\<rparr>) = Inr w' \<and>
      page.grid w' = closed_grid \<and> isWinnerDeclared w' \<and>
      pushed w' = [(Some ''Player 1'', ''11/4/2026'')])"
proof -
  let ?cp = "almost_page \<lparr>page.grid := closed_grid\<rparr>"
  have a: "\<not> isWinnerDeclared almost_page" by (simp add: almost_page_def)
  have s: "grid_shape (length (page.players almost_page)) (page.grid almost_page)"
    by (simp add: demo_defs grid_shape_def eval_nat_numeral)
  have c: "0 < length (page.players almost_page)" by (simp add: almost_page_def)
  have closed: "\<forall>i<7. closed_grid ! i ! 0 = Some \<lparr>taps = 3\<rparr>"
    by (simp add: closed_grid_def)
  have g1: "(page.grid almost_page)
      [0 := (page.grid almost_page ! 0) [0 := Some \<lparr>taps = min (2 + 1) 3\<rparr>]] = closed_grid"
    by (simp add: demo_defs eval_nat_numeral)
  have x1: "page.grid almost_page ! 0 ! 0 = Some \<lparr>taps = 2\<rparr>"
    by (simp add: demo_defs eval_nat_numeral)
  from tap_reports_closed_column[OF a s _ c, of 0 evening] x1 g1 closed
  have first: "\<exists>w'. handleCellPress evening 0 0 almost_page = Inr w' \<and>
      page.grid w' = closed_grid \<and> isWinnerDeclared w' \<and>
      pushed w' = [(Some ''Player 1'', ''11/4/2026'')] \<and>
      map game.winner (stored (completedGames (store w'))) =
        [Some ''Player 1'', Some ''Player 1'']"
    by (auto simp: demo_defs)
  have a2: "\<not> isWinnerDeclared fresh_page" by (simp add: fresh_page_def)
  have s2: "grid_shape (length (page.players fresh_page)) (page.grid fresh_page)"
    using grid_inv_shape[OF fresh_page_inv[unfolded page_inv_def, THEN conjunct1]] .
  have r2: "(2::nat) < 7" by simp
  have c2: "1 < length (page.players fresh_page)" by (simp add: fresh_page_def)
  have x2: "page.grid fresh_page ! 2 ! 1 = Some \<lparr>taps = 0\<rparr>"
    by (simp add: fresh_page_def initialGridState_eq)
  have g2: "(page.grid fresh_page)
      [2 := (page.grid fresh_page ! 2) [1 := Some \<lparr>taps = min (0 + 1) 3\<rparr>]] =
      (initialGridState [''Player 1'', ''Player 2''])
        [2 := [Some \<lparr>taps = 0\<rparr>, Some \<lparr>taps = 1\<rparr>]]"
    by (simp add: fresh_page_def initialGridState_eq eval_nat_numeral)
  have open2: "\<not> (\<forall>i<7. (initialGridState [''Player 1'', ''Player 2''])
        [2 := [Some \<lparr>taps = 0\<rparr>, Some \<lparr>taps = 1\<rparr>]] ! i ! 1 = Some \<lparr>taps = 3\<rparr>)"
    by (auto simp: initialGridState_eq intro!: exI[of _ 0])
  from tap_reports_closed_column[OF a2 s2 r2 c2, of morning] x2 g2 open2
  have second: "\<exists>w'. handleCellPress morning 2 1 fresh_page = Inr w' \<and>
      page.grid w' = (initialGridState [''Player 1'', ''Player 2''])
        [2 := [Some \<lparr>taps = 0\<rparr>, Some \<lparr>taps = 1\<rparr>]] \<and>
      \<not> isWinnerDeclared w' \<and> pushed w' = [] \<and>
      map game.winner (stored (completedGames (store w'))) = []"
    by (auto simp: demo_defs)
  have a3: "\<not> isWinnerDeclared ?cp" by (simp add: almost_page_def)
  have s3: "grid_shape (length (page.players ?cp)) (page.grid ?cp)"
    by (simp add: demo_defs grid_shape_def eval_nat_numeral)
  have r3: "(3::nat) < 7" by simp
  have c3: "0 < length (page.players ?cp)" by (simp add: almost_page_def)
  have x3: "page.grid ?cp ! 3 ! 0 = Some \<lparr>taps = 3\<rparr>"
    by (simp add: closed_grid_def)
  have g3: "(page.grid ?cp) [3 := (page.grid ?cp ! 3) [0 := Some \<lparr>taps = min (3 + 1) 3\<rparr>]] =
      closed_grid"
    by (simp add: closed_grid_def eval_nat_numeral)
  from tap_reports_closed_column[OF a3 s3 r3 c3, of evening] x3 g3 closed
  have third: "\<exists>w'. handleCellPress evening 3 0 ?cp = Inr w' \<and>
      page.grid w' = closed_grid \<and> isWinnerDeclared w' \<and>
      pushed w' = [(Some ''Player 1'', ''11/4/2026'')]"
    by (auto simp: demo_defs)
  from a s first a2 s2 second a3 s3 third show ?thesis by blast
qed

text \<open>
  Claim C5: the grid invariant (seven rows, one cell per player in each row, every cell
  between 0 and 3 taps) is preserved by every run of taps, undos and resets from a page
  whose recorded moves are in range and carry a previous count between 0 and 3, as the
  moves recorded by \<^verbatim>\<open>handleCellPress\<close> do; and whatever the history, any number of taps
  on any cells keeps the invariant, so no cell ever exceeds three taps.
\<close>
theorem grid_invariant_preserved:
  "(page_inv w \<and> list_all (in_range (length (page.players w))) (map snd acts) \<longrightarrow>
      (\<exists>w'. run acts w = Inr w' \<and> page_inv w' \<and>
             grid_inv (length (page.players w)) (page.grid w'))) \<and>
   (grid_inv (length (page.players w)) (page.grid w) \<and>
      list_all (is_tap (length (page.players w))) (map snd acts) \<longrightarrow>
      (\<exists>w'. run acts w = Inr w' \<and> grid_inv (length (page.players w)) (page.grid w')))"
proof (intro conjI impI)
  assume "page_inv w \<and> list_all (in_range (length (page.players w))) (map snd acts)"
  then obtain w' where w': "run acts w = Inr w'" "page.players w' = page.players w" "page_inv w'"
    using run_preserves_inv[of w acts] by blast
  then have "grid_inv (length (page.players w)) (page.grid w')" by (simp add: page_inv_def)
  with w' show "\<exists>w'. run acts w = Inr w' \<and> page_inv w' \<and>
      grid_inv (length (page.players w)) (page.grid w')" by blast
next
  assume "grid_inv (length (page.players w)) (page.grid w) \<and>
      list_all (is_tap (length (page.players w))) (map snd acts)"
  then show "\<exists>w'. run acts w = Inr w' \<and> grid_inv (length (page.players w)) (page.grid w')"
    using run_taps_grid_inv[of w acts] by blast
qed

theorem grid_invariant_preserved_witness:
  "page_inv fresh_page \<and>
   list_all (in_range (length (page.players fresh_page))) (map snd demo_actions) \<and>
   (\<exists>w'. run demo_actions fresh_page = Inr w' \<and> page_inv w' \<and>
          grid_inv (length (page.players fresh_page)) (page.grid w')) \<and>
   grid_inv (length (page.players almost_page)) (page.grid almost_page) \<and>
   list_all (is_tap (length (page.players almost_page))) (map snd demo_taps) \<and>
   (\<exists>w'. run demo_taps almost_page = Inr w' \<and>
          grid_inv (length (page.players almost_page)) (page.grid w'))"
proof -
  have 1: "page_inv fresh_page" by (rule fresh_page_inv)
  have 2: "list_all (in_range (length (page.players fresh_page))) (map snd demo_actions)"
    by (simp add: fresh_page_def demo_actions_def in_range_def)
  have 3: "grid_inv (length (page.players almost_page)) (page.grid almost_page)"
    by (simp add: almost_page_def almost_grid_def closed_grid_def grid_inv_def cell_ok_def
        eval_nat_numeral)
  have 4: "list_all (is_tap (length (page.players almost_page))) (map snd demo_taps)"
    by (simp add: almost_page_def demo_taps_def is_tap_def)
  from 1 2 3 4 grid_invariant_preserved[of fresh_page demo_actions]
    grid_invariant_preserved[of almost_page demo_taps]
  show ?thesis by simp
qed

text \<open>
  Claim C6, as the code has it: after a tap that does not declare a winner, an undo
  restores the grid and the history that preceded the tap; after a tap that declares a
  winner, the undo is refused and the page stays as the tap left it.
\<close>
theorem undo_after_tap:
  assumes "\<not> isWinnerDeclared w"
    and "grid_shape (length (page.players w)) (page.grid w)"
    and "r < 7" and "c < length (page.players w)"
  shows "\<exists>w1. handleCellPress clk r c w = Inr w1 \<and>
           (if isWinnerDeclared w1 then handleUndo clk' w1 = Inr w1
            else (\<exists>w2. handleUndo clk' w1 = Inr w2 \<and>
                   page.grid w2 = page.grid w \<and> page.history w2 = page.history w))"
proof -
  let ?g = "page.grid w"
  obtain x where x: "?g ! r ! c = Some x"
    using shape_cell(2)[OF assms(2,3,4)] by blast
  have len: "length ?g = 7" using assms(2) by (simp add: grid_shape_def)
  have rowlen: "length (?g ! r) = length (page.players w)"
    using shape_cell(1)[OF assms(2,3,4)] .
  obtain w1 where w1: "handleCellPress clk r c w = Inr w1"
    "page.grid w1 = ?g [r := (?g ! r) [c := Some \<lparr>taps = min (taps x + 1) 3\<rparr>]]"
    "page.history w1 = page.history w @ [\<lparr>rowIndex = r, colIndex = c, previousTaps = taps x\<rparr>]"
    using handleCellPress_active[OF assms x, of clk] by blast
  show ?thesis
  proof (cases "isWinnerDeclared w1")
    case True
    with w1(1) show ?thesis by (simp add: handleUndo_refused)
  next
    case False
    let ?m = "\<lparr>rowIndex = r, colIndex = c, previousTaps = taps x\<rparr>"
    have "rowIndex ?m < length (page.grid w1)" using len assms(3) by (simp add: w1(2))
    moreover have "colIndex ?m < length (page.grid w1 ! rowIndex ?m)"
      using len assms(3,4) rowlen by (simp add: w1(2))
    ultimately obtain w2 where w2: "handleUndo clk' w1 = Inr w2"
      "page.grid w2 = (page.grid w1) [rowIndex ?m :=
          (page.grid w1 ! rowIndex ?m) [colIndex ?m := Some \<lparr>taps = previousTaps ?m\<rparr>]]"
      "page.history w2 = page.history w"
      using handleUndo_active[OF False w1(3), of clk'] by blast
    have "x = \<lparr>taps = taps x\<rparr>" by simp
    then have "(?g ! r) [c := Some \<lparr>taps = taps x\<rparr>] = ?g ! r"
      using x by (metis list_update_id)
    then have "page.grid w2 = ?g"
      using len assms(3) by (simp add: w2(2) w1(2))
    with w1(1) w2(1,3) False show ?thesis by auto
  qed
qed

theorem undo_after_tap_witness:
  "\<not> isWinnerDeclared fresh_page \<and>
   grid_shape (length (page.players fresh_page)) (page.grid fresh_page) \<and>
   (\<exists>w1. handleCellPress morning 4 1 fresh_page = Inr w1 \<and>
      (if isWinnerDeclared w1 then handleUndo evening w1 = Inr w1
       else (\<exists>w2. handleUndo evening w1 = Inr w2 \<and>
              page.grid w2 = page.grid fresh_page \<and> page.history w2 = page.history fresh_page)))"
proof -
  have a: "\<not> isWinnerDeclared fresh_page" by (simp add: fresh_page_def)
  have s: "grid_shape (length (page.players fresh_page)) (page.grid fresh_page)"
    using grid_inv_shape[OF fresh_page_inv[unfolded page_inv_def, THEN conjunct1]] .
  have r: "(4::nat) < 7" by simp
  have c: "1 < length (page.players fresh_page)" by (simp add: fresh_page_def)
  show ?thesis using a s undo_after_tap[OF a s r c, of morning evening] by simp
qed

text \<open>
  The tap on the last open cell of the first column of \<open>almost_page\<close> wins the game;
  the undo that follows changes nothing, and the grid is not the one before the tap.
\<close>
theorem undo_after_winning_tap_counterexample:
  "handleCellPress evening 0 0 almost_page = Inr won_page \<and>
   handleUndo evening won_page = Inr won_page \<and>
   page.grid won_page \<noteq> page.grid almost_page"
  by (simp add: winning_tap handleUndo_def) (simp add: demo_defs eval_nat_numeral)

text \<open>
  Claim C7: with no winner declared, a tap in range appends exactly one move with the
  tapped indices and the previous count of the cell, also when the cell already holds
  three taps and the grid does not change; hence \<open>n\<close> taps, none of which is made
  after a win, lengthen the history by \<open>n\<close>.
\<close>
theorem tap_always_records_move:
  assumes shape: "grid_shape (length (page.players w)) (page.grid w)"
  shows "(\<not> isWinnerDeclared w \<and> r < 7 \<and> c < length (page.players w) \<longrightarrow>
           (\<exists>x w'. page.grid w ! r ! c = Some x \<and> handleCellPress clk r c w = Inr w' \<and>
              page.history w' =
                page.history w @ [\<lparr>rowIndex = r, colIndex = c, previousTaps = taps x\<rparr>] \<and>
              (taps x = 3 \<longrightarrow> page.grid w' = page.grid w))) \<and>
         (list_all (is_tap (length (page.players w))) (map snd acts) \<and>
            (\<exists>w1. run (butlast acts) w = Inr w1 \<and> \<not> isWinnerDeclared w1) \<longrightarrow>
           (\<exists>w'. run acts w = Inr w' \<and>
              length (page.history w') = length (page.history w) + length acts))"
proof (intro conjI impI)
  assume a: "\<not> isWinnerDeclared w \<and> r < 7 \<and> c < length (page.players w)"
  then obtain x where x: "page.grid w ! r ! c = Some x"
    using shape_cell(2)[OF shape, of r c] by blast
  from a obtain w' where w': "handleCellPress clk r c w = Inr w'"
    "page.grid w' = (page.grid w) [r := (page.grid w ! r) [c := Some \<lparr>taps = min (taps x + 1) 3\<rparr>]]"
    "page.history w' = page.history w @ [\<lparr>rowIndex = r, colIndex = c, previousTaps = taps x\<rparr>]"
    using handleCellPress_active[OF _ shape _ _ x, of clk] by blast
  have "taps x = 3 \<longrightarrow> page.grid w' = page.grid w"
  proof
    assume "taps x = 3"
    then have "\<lparr>taps = min (taps x + 1) 3\<rparr> = x" by simp
    then have "(page.grid w ! r) [c := Some \<lparr>taps = min (taps x + 1) 3\<rparr>] = page.grid w ! r"
      using x by (metis list_update_id)
    then show "page.grid w' = page.grid w" by (simp add: w'(2))
  qed
  with x w'(1,3) show "\<exists>x w'. page.grid w ! r ! c = Some x \<and> handleCellPress clk r c w = Inr w' \<and>
              page.history w' =
                page.history w @ [\<lparr>rowIndex = r, colIndex = c, previousTaps = taps x\<rparr>] \<and>
              (taps x = 3 \<longrightarrow> page.grid w' = page.grid w)" by blast
next
  assume "list_all (is_tap (length (page.players w))) (map snd acts) \<and>
            (\<exists>w1. run (butlast acts) w = Inr w1 \<and> \<not> isWinnerDeclared w1)"
  then show "\<exists>w'. run acts w = Inr w' \<and>
              length (page.history w') = length (page.history w) + length acts"
    using run_taps_history[OF shape] by blast
qed

theorem tap_always_records_move_witness:
  "grid_shape (length (page.players almost_page)) (page.grid almost_page) \<and>
   \<not> isWinnerDeclared almost_page \<and>
   (\<exists>x w'. page.grid almost_page ! 1 ! 0 = Some x \<and>
      handleCellPress morning 1 0 almost_page = Inr w' \<and>
      page.history w' =
        page.history almost_page @ [\<lparr>rowIndex = 1, colIndex = 0, previousTaps = taps x\<rparr>] \<and>
      (taps x = 3 \<longrightarrow> page.grid w' = page.grid almost_page)) \<and>
   grid_shape (length (page.players fresh_page)) (page.grid fresh_page) \<and>
   list_all (is_tap (length (page.players fresh_page))) (map snd demo_taps) \<and>
   (\<exists>w1. run (butlast demo_taps) fresh_page = Inr w1 \<and> \<not> isWinnerDeclared w1) \<and>
   (\<exists>w'. run demo_taps fresh_page = Inr w' \<and>
      length (page.history w') = length (page.history fresh_page) + length demo_taps)"
proof -
  have s: "grid_shape (length (page.players almost_page)) (page.grid almost_page)"
    by (simp add: demo_defs grid_shape_def eval_nat_numeral)
  have a: "\<not> isWinnerDeclared almost_page" by (simp add: almost_page_def)
  have n: "(1::nat) < 7 \<and> 0 < length (page.players almost_page)" by (simp add: almost_page_def)
  have s': "grid_shape (length (page.players fresh_page)) (page.grid fresh_page)"
    using grid_inv_shape[OF fresh_page_inv[unfolded page_inv_def, THEN conjunct1]] .
  have t: "list_all (is_tap (length (page.players fresh_page))) (map snd demo_taps)"
    by (simp add: fresh_page_def demo_taps_def is_tap_def)
  have b: "\<exists>w1. run (butlast demo_taps) fresh_page = Inr w1 \<and> \<not> isWinnerDeclared w1"
    by (rule demo_taps_run)
  from s a n tap_always_records_move[OF s, where r = 1 and c = 0 and clk = morning]
  have first: "\<exists>x w'. page.grid almost_page ! 1 ! 0 = Some x \<and>
      handleCellPress morning 1 0 almost_page = Inr w' \<and>
      page.history w' =
        page.history almost_page @ [\<lparr>rowIndex = 1, colIndex = 0, previousTaps = taps x\<rparr>] \<and>
      (taps x = 3 \<longrightarrow> page.grid w' = page.grid almost_page)" by simp
  from t b tap_always_records_move[OF s', where acts = demo_taps]
  have second: "\<exists>w'. run demo_taps fresh_page = Inr w' \<and>
      length (page.history w') = length (page.history fresh_page) + length demo_taps" by simp
  from s a first s' t b second show ?thesis by simp
qed

text \<open>
  Claim C8: a serialised parameter that fails to parse makes the session fall back to
  two default players, a fresh grid and an empty history. In
  \<^verbatim>\<open>src/app/game-screen.js\<close> the SyntaxError of \<^verbatim>\<open>JSON.parse\<close> is not caught and the
  construction fails; the older copy catches it, keeps the default players with an empty
  grid (no rows) and an empty history, and redirects to the set-up screen.
\<close>
theorem malformed_players_param:
  "GameScreenPage demo_json bad_params empty_storage = Inl SyntaxError \<and>
   GameScreenPage_legacy demo_json bad_params = ([''Player 1'', ''Player 2''], [], [], True)"
  by (simp add: GameScreenPage_def GameScreenPage_legacy_def demo_json_def bad_params_def parse_or_def)

text \<open>
  Claim C9, as the code has it: for every list of players, of any length, the initial
  grid has seven rows of one zero cell per player, and a session whose grid and history
  parameters are absent starts with that grid and an empty history; the number of
  players is never a reason to fail.
\<close>
theorem initialGridState_any_count:
  "initialGridState ps = replicate 7 (replicate (length ps) (Some \<lparr>taps = 0\<rparr>)) \<and>
   (parse_or (parsePlayers js) (playersParam p) [''Player 1'', ''Player 2''] = Inr ps \<and>
    gridParam p = None \<and> historyParam p = None \<longrightarrow>
      (\<exists>w. GameScreenPage js p st = Inr w \<and> page.players w = ps \<and>
           page.grid w = replicate 7 (replicate (length ps) (Some \<lparr>taps = 0\<rparr>)) \<and>
           page.history w = []))"
  by (simp add: initialGridState_eq GameScreenPage_def parse_or_def)

theorem initialGridState_any_count_witness:
  "initialGridState [''A'', ''B'', ''C'', ''D'', ''E''] =
     replicate 7 (replicate (length [''A'', ''B'', ''C'', ''D'', ''E'']) (Some \<lparr>taps = 0\<rparr>)) \<and>
   parse_or (parsePlayers demo_json) (playersParam five_params) [''Player 1'', ''Player 2''] =
     Inr [''A'', ''B'', ''C'', ''D'', ''E''] \<and>
   gridParam five_params = None \<and> historyParam five_params = None \<and>
   (\<exists>w. GameScreenPage demo_json five_params empty_storage = Inr w \<and>
      page.players w = [''A'', ''B'', ''C'', ''D'', ''E''] \<and>
      page.grid w =
        replicate 7 (replicate (length [''A'', ''B'', ''C'', ''D'', ''E'']) (Some \<lparr>taps = 0\<rparr>)) \<and>
      page.history w = [])"
proof -
  have 1: "parse_or (parsePlayers demo_json) (playersParam five_params) [''Player 1'', ''Player 2''] =
     Inr [''A'', ''B'', ''C'', ''D'', ''E'']"
    by (simp add: parse_or_def demo_json_def five_params_def)
  have 2: "gridParam five_params = None \<and> historyParam five_params = None"
    by (simp add: five_params_def)
  from 1 2 initialGridState_any_count[of "[''A'', ''B'', ''C'', ''D'', ''E'']" demo_json
      five_params empty_storage]
  show ?thesis by simp
qed

text \<open>
  With five players the construction succeeds and the grid has seven rows of five cells.
\<close>
theorem five_players_counterexample:
  "initialGridState [''A'', ''B'', ''C'', ''D'', ''E''] =
     replicate 7 (replicate 5 (Some \<lparr>taps = 0\<rparr>)) \<and>
   \<not> isl (GameScreenPage demo_json five_params empty_storage) \<and>
   page.grid (projr (GameScreenPage demo_json five_params empty_storage)) =
     replicate 7 (replicate 5 (Some \<lparr>taps = 0\<rparr>))"
  by (simp add: initialGridState_eq GameScreenPage_def demo_json_def five_params_def parse_or_def
      eval_nat_numeral)

text \<open>
  Claim C10: \<^verbatim>\<open>saveGame\<close> and \<^verbatim>\<open>saveResetGame\<close> write the clock reading of the save
  into the \<^verbatim>\<open>date\<close> of the one in-progress record of the game, so after any two
  persists the record carries the date of the later one.
\<close>
theorem persist_writes_save_date:
  "map game.date (filter (\<lambda>g. game.gameName g = page.gameName w)
      (stored (inProgressGames (store (saveGame clk w))))) = [localeDate clk] \<and>
   map game.date (filter (\<lambda>g. game.gameName g = page.gameName w)
      (stored (inProgressGames (store (saveResetGame clk w))))) = [localeDate clk] \<and>
   map game.date (filter (\<lambda>g. game.gameName g = page.gameName w)
      (stored (inProgressGames (store (saveGame clk2 (saveGame clk w)))))) = [localeDate clk2] \<and>
   map game.date (filter (\<lambda>g. game.gameName g = page.gameName w)
      (stored (inProgressGames (store (saveGame clk2 (saveResetGame clk w)))))) = [localeDate clk2] \<and>
   map game.date (filter (\<lambda>g. game.gameName g = page.gameName w)
      (stored (inProgressGames (store (saveResetGame clk2 (saveGame clk w)))))) = [localeDate clk2]"
  by (simp add: inProgress_saveGame inProgress_saveResetGame)

end
